theory Spec2Isabelle
  imports Main "HOL-Library.Char_ord" "HOL-Library.List_Lexorder" "HOL-Library.Multiset"
begin

section \<open>The jobs debugger: data model\<close>

text \<open>
  The module \<^verbatim>\<open>src/jobs/debugger.py\<close> reads rows of the \<^verbatim>\<open>Job\<close> table through the
  Django ORM, prints what it finds and, in one function, writes rows back.

  A \<^verbatim>\<open>datetime\<close> is an integer: the number of microseconds since
  \<^verbatim>\<open>datetime.min\<close> (0001-01-01 00:00:00). A \<^verbatim>\<open>timedelta\<close> is a number of
  microseconds too. The comparisons of the source are exact on these.
\<close>

type_synonym datetime = int

definition minutes :: "int \<Rightarrow> int" where
  "minutes n = n * 60000000"

definition hours :: "int \<Rightarrow> int" where
  "hours n = n * 3600000000"

text \<open>
  One row of the \<^verbatim>\<open>Job\<close> table, with the columns the module reads.
  The column \<^verbatim>\<open>id\<close> is \<open>job_id\<close> here (\<open>id\<close> is the identity function of HOL);
  the module slices it (\<^verbatim>\<open>job.id[:8]\<close>), so it is a string. Nullable columns are
  options, \<^verbatim>\<open>None\<close> being SQL's NULL.
\<close>

record job =
  job_id :: string
  func :: string
  channel :: string
  status :: string
  attempt :: int
  max_retries :: int
  created :: datetime
  started_at :: "datetime option"
  finished_at :: "datetime option"
  expires_at :: "datetime option"
  runner_id :: "string option"
  last_error :: "string option"
  payload :: string

text \<open>
  The table is the list of its rows, in the order in which the database yields them when
  no ordering is asked for. What the module can raise: \<^verbatim>\<open>Job.DoesNotExist\<close> and
  \<^verbatim>\<open>Job.MultipleObjectsReturned\<close> from \<^verbatim>\<open>Job.objects.get\<close>, whatever
  \<^verbatim>\<open>job.save()\<close> raises when the write of a row fails (the id of the row is kept), and
  \<^verbatim>\<open>OverflowError\<close> from the arithmetic of \<^verbatim>\<open>datetime\<close> and \<^verbatim>\<open>timedelta\<close>.
\<close>

datatype error = DoesNotExist | MultipleObjectsReturned | SaveError string | OverflowError

text \<open>
  What \<^verbatim>\<open>print\<close> writes is a list of lines. A line is the f-string in its parts:
  the literal text (\<open>L\<close>) and the values interpolated, as values and not in their
  rendering. The pictographs that open some lines are left out. Three kinds of lines
  have a constructor of their own: the banner of a function, the first line
  \<^verbatim>\<open>Job {job.id[:8]}...\<close> of a job in \<^verbatim>\<open>debug_stuck_jobs\<close> (\<open>JobHead\<close>) and the one
  line among \<^verbatim>\<open>EXPIRED!\<close>, \<^verbatim>\<open>POSSIBLY STUCK (pending > 5min)\<close> and
  \<^verbatim>\<open>Seems normal\<close> that closes it (\<open>Verdict\<close>); \<open>Flag\<close> is a warning of
  \<^verbatim>\<open>inspect_job\<close>, \<open>Blank\<close> the empty line.
\<close>

datatype val = L string | S string | I int | N nat | B bool | T datetime
  | OS "string option" | OT "datetime option"

datatype verdict = Expired | PossiblyStuck | SeemsNormal

datatype line =
    Banner string "string option"
  | Text "val list"
  | JobHead string
  | Verdict verdict
  | Flag string
  | Blank

section \<open>Queries\<close>

text \<open>
  \<^verbatim>\<open>if channel:\<close> is Python's truth test: \<^verbatim>\<open>None\<close> and the empty string are false.
\<close>

fun truthy :: "string option \<Rightarrow> bool" where
  "truthy None = False"
| "truthy (Some s) = (s \<noteq> [])"

text \<open>
  \<^verbatim>\<open>jobs_query = Job.objects.all(); if channel: jobs_query = jobs_query.filter(channel=channel)\<close>
\<close>

definition jobs_query :: "job list \<Rightarrow> string option \<Rightarrow> job list" where
  "jobs_query db ch =
     (if truthy ch then filter (\<lambda>j. Some (channel j) = ch) db else db)"

text \<open>
  The banner every function prints first:
  \<^verbatim>\<open>f"=== TITLE{f' FOR CHANNEL: {channel}' if channel else ''} ==="\<close>
\<close>

definition banner :: "string \<Rightarrow> string option \<Rightarrow> line" where
  "banner title ch = Banner title (if truthy ch then ch else None)"

text \<open>
  \<^verbatim>\<open>expires_at__lt=now\<close> and \<^verbatim>\<open>job.expires_at and job.expires_at < now\<close>: a NULL
  column never compares less, and a \<^verbatim>\<open>datetime\<close> is always true in Python.
\<close>

fun before :: "datetime option \<Rightarrow> datetime \<Rightarrow> bool" where
  "before None t = False"
| "before (Some e) t = (e < t)"

section \<open>debug\_stuck\_jobs\<close>

text \<open>
  The \<^verbatim>\<open>if\<close>/\<^verbatim>\<open>elif\<close>/\<^verbatim>\<open>else\<close> of the loop body (lines 36 to 41). The clock is read
  once in the first test (\<open>t1\<close>) and once more in the second (\<open>t2\<close>).
\<close>

definition stuck_verdict :: "datetime \<Rightarrow> datetime \<Rightarrow> job \<Rightarrow> verdict" where
  "stuck_verdict t1 t2 j =
     (if before (expires_at j) t1 then Expired
      else if created j < t2 - minutes 5 \<and> status j = ''pending'' then PossiblyStuck
      else SeemsNormal)"

text \<open>
  \<^verbatim>\<open>jobs_query.filter(status='pending').order_by('created')\<close>. SQL leaves the order of
  rows with equal keys to the database; the stable sort keeps them in table order.
\<close>

definition pending_jobs :: "job list \<Rightarrow> string option \<Rightarrow> job list" where
  "pending_jobs db ch = sort_key created (filter (\<lambda>j. status j = ''pending'') (jobs_query db ch))"

text \<open>
  The body of \<^verbatim>\<open>for job in pending_jobs[:10]\<close>. \<open>clock i\<close> holds the two readings of
  \<^verbatim>\<open>timezone.now()\<close> in the \<open>i\<close>-th iteration.
\<close>

fun show_pending :: "(nat \<Rightarrow> datetime \<times> datetime) \<Rightarrow> nat \<Rightarrow> job list \<Rightarrow> line list" where
  "show_pending clock i [] = []"
| "show_pending clock i (j # rest) =
     [JobHead (take 8 (job_id j)),
      Text [L ''  Status: '', S (status j)],
      Text [L ''  Channel: '', S (channel j)],
      Text [L ''  Created: '', T (created j)],
      Text [L ''  Started: '', OT (started_at j)],
      Text [L ''  Runner: '', OS (runner_id j)],
      Text [L ''  Attempt: '', I (attempt j)],
      Text [L ''  Max Retries: '', I (max_retries j)],
      Text [L ''  Expires: '', OT (expires_at j)],
      Verdict (stuck_verdict (fst (clock i)) (snd (clock i)) j),
      Blank]
     @ show_pending clock (Suc i) rest"

definition debug_stuck_jobs :: "job list \<Rightarrow> string option \<Rightarrow> (nat \<Rightarrow> datetime \<times> datetime) \<Rightarrow> line list" where
  "debug_stuck_jobs db ch clock =
     [banner ''DEBUGGING STUCK JOBS'' ch,
      Text [L ''Total pending jobs: '', N (length (pending_jobs db ch))]]
     @ show_pending clock 0 (take 10 (pending_jobs db ch))"

section \<open>debug\_clear\_stuck\_logic and manual\_clear\_stuck\<close>

text \<open>
  The two query sets of \<^verbatim>\<open>debug_clear_stuck_logic\<close>. \<open>now\<close> is its one reading of the
  clock (line 56). The module subtracts only the constants 5 minutes, 10 minutes and
  1 hour from a reading of the clock, which never leaves the range of \<^verbatim>\<open>datetime\<close>;
  \<^verbatim>\<open>find_old_pending_jobs\<close> below subtracts what its caller passes, and there the range
  is checked.
\<close>

definition potentially_stuck :: "job list \<Rightarrow> string option \<Rightarrow> datetime \<Rightarrow> job list" where
  "potentially_stuck db ch now =
     filter (\<lambda>j. status j \<in> {''pending'', ''running''} \<and> created j < now - minutes 10)
       (jobs_query db ch)"

definition expired_jobs :: "job list \<Rightarrow> string option \<Rightarrow> datetime \<Rightarrow> job list" where
  "expired_jobs db ch now =
     filter (\<lambda>j. before (expires_at j) now \<and> status j \<in> {''pending'', ''running''})
       (jobs_query db ch)"

definition debug_clear_stuck_logic ::
  "job list \<Rightarrow> string option \<Rightarrow> datetime \<Rightarrow> (job list \<times> job list) \<times> line list" where
  "debug_clear_stuck_logic db ch now =
     ((potentially_stuck db ch now, expired_jobs db ch now),
      [banner ''CLEAR STUCK LOGIC'' ch,
       Text [L ''Jobs potentially stuck (pending/running > 10min): '',
             N (length (potentially_stuck db ch now))],
       Text [L ''Expired jobs still pending/running: '', N (length (expired_jobs db ch now))]])"

text \<open>
  \<^verbatim>\<open>QuerySet.union\<close> is SQL's \<^verbatim>\<open>UNION\<close>: the rows of both queries, each distinct row
  once. SQL fixes no order for the result, and the list here stands for the rows only:
  what is counted and who is a member. The order in which a loop meets the rows is a
  parameter of \<open>manual_clear_stuck\<close>.
\<close>

definition union_qs :: "job list \<Rightarrow> job list \<Rightarrow> job list" where
  "union_qs xs ys = remdups (xs @ ys)"

text \<open>
  \<^verbatim>\<open>all_stuck = potentially_stuck.union(expired_jobs)\<close> (lines 79 to 81).
\<close>

definition all_stuck :: "job list \<Rightarrow> string option \<Rightarrow> datetime \<Rightarrow> job list" where
  "all_stuck db ch now =
     union_qs (fst (fst (debug_clear_stuck_logic db ch now)))
              (snd (fst (debug_clear_stuck_logic db ch now)))"

text \<open>
  Lines 90 to 92: the three assignments to the fetched object; \<open>t\<close> is the reading of
  \<^verbatim>\<open>timezone.now()\<close> at line 91.
\<close>

definition mark_failed :: "datetime \<Rightarrow> job \<Rightarrow> job" where
  "mark_failed t j =
     j\<lparr>status := ''failed'', finished_at := Some t, last_error := Some ''Cleared as stuck job''\<rparr>"

text \<open>
  \<^verbatim>\<open>job.save()\<close> writes the object to the row of its primary key, \<^verbatim>\<open>id\<close>: an UPDATE
  of that row, an INSERT when there is none. The write can fail (the database is down,
  a constraint is violated); \<open>accepts\<close> says for which objects the store takes the write,
  and a refused write raises.
\<close>

definition write_row :: "job \<Rightarrow> job list \<Rightarrow> job list" where
  "write_row j db =
     (if job_id j \<in> set (map job_id db)
      then map (\<lambda>r. if job_id r = job_id j then j else r) db
      else db @ [j])"

definition save :: "(job \<Rightarrow> bool) \<Rightarrow> job \<Rightarrow> job list \<Rightarrow> error + job list" where
  "save accepts j db = (if accepts j then Inr (write_row j db) else Inl (SaveError (job_id j)))"

text \<open>
  The loop of lines 85 to 94 over the rows fetched when it starts. \<open>cleared_count\<close> is
  also the number of the iteration, and \<open>clk i\<close> the reading of the clock in iteration
  \<open>i\<close>. Nothing catches what \<^verbatim>\<open>job.save()\<close> raises: the loop ends there, with the table
  and the output as they are at that moment. \<open>clearing_line\<close> is the line printed at
  line 87.
\<close>

definition clearing_line :: "job \<Rightarrow> line" where
  "clearing_line j =
     Text [L ''Clearing job '', S (take 8 (job_id j)), L ''... - '', S (status j), L '' - '',
           S (channel j)]"

fun clear_loop ::
  "bool \<Rightarrow> (nat \<Rightarrow> datetime) \<Rightarrow> (job \<Rightarrow> bool) \<Rightarrow> nat \<Rightarrow> job list \<Rightarrow> line list \<Rightarrow> job list
     \<Rightarrow> (error + nat) \<times> job list \<times> line list" where
  "clear_loop dry_run clk accepts cleared_count db out [] = (Inr cleared_count, db, out)"
| "clear_loop dry_run clk accepts cleared_count db out (j # rest) =
     (let out1 = out @ [clearing_line j]
      in if \<not> dry_run
         then (case save accepts (mark_failed (clk cleared_count) j) db of
                 Inl e \<Rightarrow> (Inl e, db, out1)
               | Inr db1 \<Rightarrow> clear_loop dry_run clk accepts (Suc cleared_count) db1 out1 rest)
         else clear_loop dry_run clk accepts (Suc cleared_count) db out1 rest)"

text \<open>
  A call of \<^verbatim>\<open>manual_clear_stuck\<close> ends with what it returned or raised, the table
  and the lines printed.
\<close>

record run =
  returned :: "error + nat"
  store :: "job list"
  printed :: "line list"

text \<open>
  \<^verbatim>\<open>def manual_clear_stuck(channel=None, dry_run=True)\<close>: the argument \<open>dry_run_arg\<close> is
  \<open>None\<close> when the caller leaves it out. The last line printed is
  \<^verbatim>\<open>Cleared n stuck jobs\<close> or \<^verbatim>\<open>Would clear n stuck jobs (dry run)\<close>.

  \<^verbatim>\<open>for job in all_stuck\<close> runs the union query, which asks for no order: the database
  yields the rows in an order of its choice. \<open>ord\<close> is that choice, the arrangement of the
  rows of a query as the database yields them (\<open>sort_key job_id\<close> for one that goes by
  the primary key). \<^verbatim>\<open>all_stuck.count()\<close> counts the rows and depends on no order.
\<close>

definition manual_clear_stuck ::
  "job list \<Rightarrow> string option \<Rightarrow> bool option \<Rightarrow> datetime \<Rightarrow> (nat \<Rightarrow> datetime) \<Rightarrow> (job \<Rightarrow> bool)
     \<Rightarrow> (job list \<Rightarrow> job list) \<Rightarrow> run" where
  "manual_clear_stuck db ch dry_run_arg now clk accepts ord =
     (let dry_run = (case dry_run_arg of None \<Rightarrow> True | Some b \<Rightarrow> b);
          out0 = [banner ''MANUAL CLEAR STUCK'' ch, Text [L ''DRY RUN: '', B dry_run]]
                 @ snd (debug_clear_stuck_logic db ch now)
                 @ [Text [L ''Total jobs to clear: '', N (length (all_stuck db ch now))]]
      in case clear_loop dry_run clk accepts 0 db out0 (ord (all_stuck db ch now)) of
           (Inl e, db1, out1) \<Rightarrow> \<lparr>returned = Inl e, store = db1, printed = out1\<rparr>
         | (Inr n, db1, out1) \<Rightarrow>
             \<lparr>returned = Inr n, store = db1,
              printed = out1 @ [if \<not> dry_run then Text [L ''Cleared '', N n, L '' stuck jobs'']
                                else Text [L ''Would clear '', N n, L '' stuck jobs (dry run)'']]\<rparr>)"

section \<open>inspect\_job\<close>

text \<open>
  \<^verbatim>\<open>Job.objects.get(id=job_id)\<close>: the one row with that id; no row and several rows
  raise.
\<close>

definition objects_get :: "job list \<Rightarrow> string \<Rightarrow> error + job" where
  "objects_get db i =
     (case filter (\<lambda>r. job_id r = i) db of
        [] \<Rightarrow> Inl DoesNotExist
      | [r] \<Rightarrow> Inr r
      | _ \<Rightarrow> Inl MultipleObjectsReturned)"

text \<open>
  \<^verbatim>\<open>inspect_job\<close> returns the job, or \<^verbatim>\<open>None\<close> from its handler of
  \<^verbatim>\<open>Job.DoesNotExist\<close>; any other exception leaves the function.
\<close>

definition inspect_job :: "job list \<Rightarrow> string \<Rightarrow> datetime \<Rightarrow> (error + job option) \<times> line list" where
  "inspect_job db i now =
     (case objects_get db i of
        Inr j \<Rightarrow>
          (Inr (Some j),
           [Text [L ''=== JOB INSPECTION: '', S i, L '' ===''],
            Text [L ''ID: '', S (job_id j)],
            Text [L ''Function: '', S (func j)],
            Text [L ''Channel: '', S (channel j)],
            Text [L ''Status: '', S (status j)],
            Text [L ''Attempt: '', I (attempt j), L ''/'', I (max_retries j)],
            Text [L ''Created: '', T (created j)],
            Text [L ''Started: '', OT (started_at j)],
            Text [L ''Finished: '', OT (finished_at j)],
            Text [L ''Expires: '', OT (expires_at j)],
            Text [L ''Runner: '', OS (runner_id j)],
            Text [L ''Last Error: '', OS (last_error j)],
            Text [L ''Payload: '', S (payload j)]]
           @ (if before (expires_at j) now then [Flag ''JOB HAS EXPIRED!''] else [])
           @ (if status j = ''pending'' \<and> created j < now - minutes 10
              then [Flag ''Job has been pending for over 10 minutes''] else [])
           @ (if status j = ''running'' \<and> before (started_at j) (now - hours 1)
              then [Flag ''Job has been running for over 1 hour''] else []))
      | Inl DoesNotExist \<Rightarrow> (Inr None, [Text [L ''Job '', S i, L '' not found'']])
      | Inl e \<Rightarrow> (Inl e, []))"

section \<open>jobs\_summary\<close>

text \<open>
  \<^verbatim>\<open>.values(f).annotate(count=Count(f)).order_by(f)\<close>: one pair for each value of the
  column, with the number of rows holding it, in the order of the values (strings in
  lexicographic order).
\<close>

definition values_count :: "(job \<Rightarrow> string) \<Rightarrow> job list \<Rightarrow> (string \<times> nat) list" where
  "values_count f rows =
     map (\<lambda>k. (k, length (filter (\<lambda>r. f r = k) rows))) (sort (remdups (map f rows)))"

definition status_counts :: "job list \<Rightarrow> string option \<Rightarrow> (string \<times> nat) list" where
  "status_counts db ch = values_count status (jobs_query db ch)"

definition channel_counts :: "job list \<Rightarrow> string option \<Rightarrow> (string \<times> nat) list" where
  "channel_counts db ch = values_count channel (jobs_query db ch)"

text \<open>
  \<^verbatim>\<open>jobs_query.order_by('-created')[:5]\<close>: the ordering has the one key, and the order
  of rows created at the same time is the database's choice. \<open>tie\<close> is that choice: the
  arrangement in which the database meets the rows of the query; the stable sort keeps
  rows with equal keys in it. Every descending order of the rows arises from some
  arrangement.
\<close>

definition recent_jobs :: "(job list \<Rightarrow> job list) \<Rightarrow> job list \<Rightarrow> string option \<Rightarrow> job list" where
  "recent_jobs tie db ch = take 5 (sort_key (\<lambda>j. - created j) (tie (jobs_query db ch)))"

text \<open>
  \<^verbatim>\<open>jobs_summary\<close> returns nothing; the counts and the recent jobs are what it prints.
  A newline that opens a printed text is an empty line before it.
\<close>

definition jobs_summary :: "(job list \<Rightarrow> job list) \<Rightarrow> job list \<Rightarrow> string option \<Rightarrow> line list" where
  "jobs_summary tie db ch =
     [banner ''JOBS SUMMARY'' ch, Text [L ''Status breakdown:'']]
     @ map (\<lambda>(k, c). Text [L ''  '', S k, L '': '', N c]) (status_counts db ch)
     @ (if \<not> truthy ch
        then [Blank, Text [L ''Channel breakdown:'']]
             @ map (\<lambda>(k, c). Text [L ''  '', S k, L '': '', N c]) (channel_counts db ch)
        else [])
     @ [Blank, Text [L ''Most recent jobs:'']]
     @ map (\<lambda>j. Text [L ''  '', S (take 8 (job_id j)), L ''... - '', S (status j), L '' - '',
                   S (channel j), L '' - '', T (created j)])
         (recent_jobs tie db ch)"

section \<open>find\_old\_pending\_jobs\<close>

text \<open>
  \<^verbatim>\<open>timedelta(minutes=m)\<close> raises \<^verbatim>\<open>OverflowError\<close> when the days of the duration
  exceed 999999999 in magnitude, and \<^verbatim>\<open>datetime - timedelta\<close> when the result is not
  a date of the years 1 to 9999 (3652059 days).
\<close>

definition timedelta_minutes :: "int \<Rightarrow> error + int" where
  "timedelta_minutes m =
     (if - 999999999 \<le> minutes m div 86400000000 \<and> minutes m div 86400000000 \<le> 999999999
      then Inr (minutes m) else Inl OverflowError)"

definition datetime_sub :: "datetime \<Rightarrow> int \<Rightarrow> error + datetime" where
  "datetime_sub t d =
     (if 0 \<le> t - d \<and> t - d < 3652059 * 86400000000 then Inr (t - d) else Inl OverflowError)"

text \<open>
  The loop of lines 186 to 188; \<open>clk i\<close> is its reading of the clock in iteration \<open>i\<close>.
  The line keeps the age as a duration; the source prints it in minutes, as a float
  with one decimal.
\<close>

fun show_old :: "(nat \<Rightarrow> datetime) \<Rightarrow> nat \<Rightarrow> job list \<Rightarrow> line list" where
  "show_old clk i [] = []"
| "show_old clk i (j # rest) =
     Text [L ''Job '', S (take 8 (job_id j)), L ''... - '', S (channel j), L '' - pending for '',
           I (clk i - created j), L '' minutes'']
     # show_old clk (Suc i) rest"

text \<open>
  \<^verbatim>\<open>def find_old_pending_jobs(minutes=10, channel=None)\<close>; \<open>minutes_arg\<close> is \<open>None\<close> when
  the caller leaves it out. \<open>now\<close> is the reading of the clock at line 171.
\<close>

definition find_old_pending_jobs ::
  "job list \<Rightarrow> int option \<Rightarrow> string option \<Rightarrow> datetime \<Rightarrow> (nat \<Rightarrow> datetime)
     \<Rightarrow> (error + job list) \<times> line list" where
  "find_old_pending_jobs db minutes_arg ch now clk =
     (let m = (case minutes_arg of None \<Rightarrow> 10 | Some n \<Rightarrow> n)
      in case timedelta_minutes m of
           Inl e \<Rightarrow> (Inl e, [])
         | Inr d \<Rightarrow>
             (case datetime_sub now d of
                Inl e \<Rightarrow> (Inl e, [])
              | Inr cutoff \<Rightarrow>
                  (let q = filter (\<lambda>j. status j = ''pending'' \<and> created j < cutoff) db;
                       jobs = sort_key created
                                (if truthy ch then filter (\<lambda>j. Some (channel j) = ch) q else q)
                   in (Inr jobs,
                       [Text ([L ''=== JOBS PENDING > '', I m, L '' MINUTES'']
                              @ (if truthy ch then [L '' IN CHANNEL: '', OS ch] else [])
                              @ [L '' ==='']),
                        Text [L ''Found '', N (length jobs), L '' jobs'']]
                       @ show_old clk 0 jobs))))"

section \<open>Example rows\<close>

text \<open>
  A reading of the clock, and the rows of a small table: \<open>job_a\<close> has been pending for
  12 minutes, \<open>job_b\<close> running for 90 minutes, \<open>job_c\<close> is finished, and \<open>job_d\<close> was
  enqueued a minute ago with an expiry that has passed.
\<close>

definition now0 :: datetime where
  "now0 = 63900000000000000"

definition job_a :: job where
  "job_a = \<lparr>job_id = ''a1b2c3d4e5'', func = ''send_email'', channel = ''email'',
            status = ''pending'', attempt = 0, max_retries = 3,
            created = 63899999280000000, started_at = None, finished_at = None,
            expires_at = None, runner_id = None, last_error = None, payload = ''{}''\<rparr>"

definition job_b :: job where
  "job_b = \<lparr>job_id = ''b0b0b0b0b0'', func = ''resize'', channel = ''media'',
            status = ''running'', attempt = 1, max_retries = 3,
            created = 63899994300000000, started_at = Some 63899994600000000,
            finished_at = None, expires_at = None, runner_id = Some ''runner-1'',
            last_error = None, payload = ''{}''\<rparr>"

definition job_c :: job where
  "job_c = \<lparr>job_id = ''c7c7c7c7c7'', func = ''send_email'', channel = ''email'',
            status = ''finished'', attempt = 1, max_retries = 3,
            created = 63899990000000000, started_at = Some 63899990001000000,
            finished_at = Some 63899990002000000, expires_at = None,
            runner_id = Some ''runner-2'', last_error = None, payload = ''{}''\<rparr>"

definition job_d :: job where
  "job_d = \<lparr>job_id = ''d9d9d9d9d9'', func = ''send_sms'', channel = ''sms'',
            status = ''pending'', attempt = 0, max_retries = 1,
            created = 63899999940000000, started_at = None, finished_at = None,
            expires_at = Some 63899999970000000, runner_id = None, last_error = None,
            payload = ''{}''\<rparr>"

definition db0 :: "job list" where
  "db0 = [job_a, job_b, job_c, job_d]"

text \<open>
  Clocks that tick one microsecond at each reading after \<open>now0\<close>, a store that takes
  every write, and one that refuses the writes of \<open>job_b\<close>.
\<close>

definition clk0 :: "nat \<Rightarrow> datetime" where
  "clk0 i = now0 + 1 + int i"

definition clock0 :: "nat \<Rightarrow> datetime \<times> datetime" where
  "clock0 i = (now0 + 2 * int i, now0 + 2 * int i + 1)"

definition accept_all :: "job \<Rightarrow> bool" where
  "accept_all j = True"

definition refuse_b :: "job \<Rightarrow> bool" where
  "refuse_b j = (job_id j \<noteq> ''b0b0b0b0b0'')"

text \<open>
  A database that yields the rows of a query without order by their primary key.
\<close>

definition by_id :: "job list \<Rightarrow> job list" where
  "by_id rows = sort_key job_id rows"

text \<open>
  A running job with an expiry that has passed, and a table of eleven pending jobs whose
  expiry has passed.
\<close>

definition job_r :: job where
  "job_r = job_b\<lparr>expires_at := Some 63899999970000000\<rparr>"

definition expired_row :: "nat \<Rightarrow> job" where
  "expired_row n = job_d\<lparr>job_id := replicate (Suc n) (CHR ''x''), created := now0 - int n\<rparr>"

definition many_expired :: "job list" where
  "many_expired = map expired_row [0 ..< 11]"

text \<open>
  Three rows of one channel created at the same instant, in the table in the order
  b, a, c of their ids. A database that meets the rows of a table last row first is
  \<open>rev\<close>.
\<close>

definition tie_b :: job where
  "tie_b = job_a\<lparr>job_id := ''b'', created := 63899999000000000\<rparr>"

definition tie_a :: job where
  "tie_a = job_a\<lparr>job_id := ''a'', created := 63899999000000000\<rparr>"

definition tie_c :: job where
  "tie_c = job_a\<lparr>job_id := ''c'', created := 63899999000000000\<rparr>"

definition ties_db :: "job list" where
  "ties_db = [tie_b, tie_a, tie_c]"

text \<open>
  Twelve pending rows with ids of their own, each created a microsecond before the one
  before it in the table.
\<close>

definition pending_row :: "nat \<Rightarrow> job" where
  "pending_row n = job_a\<lparr>job_id := replicate (Suc n) (CHR ''p''), created := now0 - int n\<rparr>"

definition many_pending :: "job list" where
  "many_pending = map pending_row [0 ..< 12]"

section \<open>Properties of the clearing loop\<close>

text \<open>
  The ids of the candidates that the loop writes: those before the first write that the
  store refuses.
\<close>

fun cleared_ids :: "(nat \<Rightarrow> datetime) \<Rightarrow> (job \<Rightarrow> bool) \<Rightarrow> nat \<Rightarrow> job list \<Rightarrow> string set" where
  "cleared_ids clk accepts n [] = {}"
| "cleared_ids clk accepts n (j # rest) =
     (if accepts (mark_failed (clk n) j)
      then insert (job_id j) (cleared_ids clk accepts (Suc n) rest)
      else {})"

section \<open>Lemmas\<close>

subsection \<open>Queries\<close>

lemma all_stuck_set:
  "set (all_stuck db ch now) = set (potentially_stuck db ch now) \<union> set (expired_jobs db ch now)"
  by (simp add: all_stuck_def debug_clear_stuck_logic_def union_qs_def)

lemma all_stuck_rows:
  "r \<in> set (all_stuck db ch now) \<Longrightarrow> r \<in> set db \<and> status r \<in> {''pending'', ''running''}"
  by (auto simp: all_stuck_set potentially_stuck_def expired_jobs_def jobs_query_def
      split: if_splits)

lemma before_iff: "before x t \<longleftrightarrow> (\<exists>e. x = Some e \<and> e < t)"
  by (cases x) simp_all

lemma sorted_pending: "sorted (map created (pending_jobs db ch))"
  by (simp add: pending_jobs_def)

lemma set_pending:
  "set (pending_jobs db ch) = {j \<in> set (jobs_query db ch). status j = ''pending''}"
  by (simp add: pending_jobs_def)

subsection \<open>The lines of debug\_stuck\_jobs\<close>

lemma heads_show_pending:
  "[s. JobHead s \<leftarrow> show_pending clock i js] = map (\<lambda>j. take 8 (job_id j)) js"
  by (induction js arbitrary: i) simp_all

lemma verdicts_show_pending:
  "[v. Verdict v \<leftarrow> show_pending clock i js] =
     map (\<lambda>(k, j). stuck_verdict (fst (clock k)) (snd (clock k)) j) (List.enumerate i js)"
  by (induction js arbitrary: i) simp_all

lemma verdict_nth:
  assumes "k < length js"
  shows "[v. Verdict v \<leftarrow> show_pending clock 0 js] ! k
           = stuck_verdict (fst (clock k)) (snd (clock k)) (js ! k)"
  using assms by (simp add: verdicts_show_pending nth_enumerate_eq)

lemma heads_debug_stuck_jobs:
  "[s. JobHead s \<leftarrow> debug_stuck_jobs db ch clock]
     = map (\<lambda>j. take 8 (job_id j)) (take 10 (pending_jobs db ch))"
  by (simp add: debug_stuck_jobs_def banner_def heads_show_pending)

lemma verdicts_debug_stuck_jobs:
  "[v. Verdict v \<leftarrow> debug_stuck_jobs db ch clock]
     = [v. Verdict v \<leftarrow> show_pending clock 0 (take 10 (pending_jobs db ch))]"
  by (simp add: debug_stuck_jobs_def banner_def)

subsection \<open>The clearing loop\<close>

lemma clear_loop_dry:
  "clear_loop True clk accepts n db out cands
     = (Inr (n + length cands), db, out @ map clearing_line cands)"
  by (induction cands arbitrary: n out) simp_all

lemma clear_loop_returns:
  "(fst (clear_loop dry_run clk accepts n db out cands) = Inr m) \<longleftrightarrow>
     (m = n + length cands \<and>
      (dry_run \<or> (\<forall>k < length cands. accepts (mark_failed (clk (n + k)) (cands ! k)))))"
proof (induction cands arbitrary: n db out)
  case Nil
  then show ?case by auto
next
  case (Cons j rest)
  show ?case
  proof (cases dry_run)
    case True
    then show ?thesis by (auto simp: clear_loop_dry)
  next
    case False
    show ?thesis
    proof (cases "accepts (mark_failed (clk n) j)")
      case True
      with False Cons.IH [of "Suc n"] show ?thesis
        by (auto simp: save_def All_less_Suc2)
    next
      case no: False
      with False show ?thesis
        by (auto simp: save_def All_less_Suc2)
    qed
  qed
qed

lemma clear_loop_fails:
  assumes "k < length cands"
      and "\<forall>i < k. accepts (mark_failed (clk (n + i)) (cands ! i))"
      and "\<not> accepts (mark_failed (clk (n + k)) (cands ! k))"
  shows "clear_loop False clk accepts n db out cands
     = (Inl (SaveError (job_id (cands ! k))),
        fold (\<lambda>(i, j). write_row (mark_failed (clk i) j)) (List.enumerate n (take k cands)) db,
        out @ map clearing_line (take (Suc k) cands))"
  using assms
proof (induction cands arbitrary: n db out k)
  case Nil
  then show ?case by simp
next
  case (Cons j rest)
  show ?case
  proof (cases k)
    case 0
    with Cons.prems show ?thesis by (simp add: save_def mark_failed_def)
  next
    case (Suc k')
    with Cons.prems have a: "accepts (mark_failed (clk n) j)" by auto
    from Suc Cons.prems have b: "k' < length rest" by simp
    from Suc Cons.prems have c: "\<forall>i < k'. accepts (mark_failed (clk (Suc n + i)) (rest ! i))"
      by auto
    from Suc Cons.prems have d: "\<not> accepts (mark_failed (clk (Suc n + k')) (rest ! k'))"
      by auto
    show ?thesis using Cons.IH [OF b c d] a Suc by (simp add: save_def)
  qed
qed

lemma write_row_keeps:
  "r \<in> set db \<Longrightarrow> job_id r \<noteq> job_id j \<Longrightarrow> r \<in> set (write_row j db)"
  by (auto simp: write_row_def)

lemma write_row_rows:
  "r \<in> set (write_row j db) \<Longrightarrow> r = j \<or> (r \<in> set db \<and> job_id r \<noteq> job_id j)"
proof (cases "job_id j \<in> set (map job_id db)")
  case True
  assume "r \<in> set (write_row j db)"
  with True show ?thesis by (auto simp: write_row_def split: if_splits)
next
  case False
  assume "r \<in> set (write_row j db)"
  with False have "r = j \<or> r \<in> set db" by (auto simp: write_row_def)
  moreover from False have "\<forall>x \<in> set db. job_id j \<noteq> job_id x" by (simp add: image_iff)
  ultimately show ?thesis by metis
qed

lemma fold_write_keeps:
  "r \<in> set db \<Longrightarrow> job_id r \<notin> job_id ` set js \<Longrightarrow>
     r \<in> set (fold (\<lambda>(i, j). write_row (mark_failed (clk i) j)) (List.enumerate n js) db)"
proof (induction js arbitrary: n db)
  case Nil
  then show ?case by simp
next
  case (Cons j js)
  from Cons.prems have "r \<in> set (write_row (mark_failed (clk n) j) db)"
    by (intro write_row_keeps) (auto simp: mark_failed_def)
  with Cons.prems Cons.IH show ?case by simp
qed

lemma clear_loop_failed_rows:
  assumes "\<forall>r \<in> set db. job_id r \<in> A \<longrightarrow> status r = ''failed''"
  shows "\<forall>r \<in> set (fst (snd (clear_loop False clk accepts n db out cands))).
           job_id r \<in> A \<union> cleared_ids clk accepts n cands \<longrightarrow> status r = ''failed''"
  using assms
proof (induction cands arbitrary: n db out A)
  case Nil
  then show ?case by simp
next
  case (Cons j rest)
  show ?case
  proof (cases "accepts (mark_failed (clk n) j)")
    case False
    with Cons.prems show ?thesis by (simp add: save_def)
  next
    case True
    let ?db1 = "write_row (mark_failed (clk n) j) db"
    have "\<forall>r \<in> set ?db1. job_id r \<in> insert (job_id j) A \<longrightarrow> status r = ''failed''"
    proof
      fix r assume "r \<in> set ?db1"
      then have "r = mark_failed (clk n) j
                 \<or> (r \<in> set db \<and> job_id r \<noteq> job_id (mark_failed (clk n) j))"
        by (rule write_row_rows)
      with Cons.prems show "job_id r \<in> insert (job_id j) A \<longrightarrow> status r = ''failed''"
        by (auto simp: mark_failed_def)
    qed
    from Cons.IH [OF this, of "Suc n"] True show ?thesis
      by (simp add: save_def)
  qed
qed

lemma cleared_ids_nth:
  "k < length cands \<Longrightarrow> \<forall>i \<le> k. accepts (mark_failed (clk (n + i)) (cands ! i)) \<Longrightarrow>
     job_id (cands ! k) \<in> cleared_ids clk accepts n cands"
proof (induction cands arbitrary: n k)
  case Nil
  then show ?case by simp
next
  case (Cons j rest)
  from Cons.prems(2) have a: "accepts (mark_failed (clk n) j)" by force
  show ?case
  proof (cases k)
    case 0
    with a show ?thesis by simp
  next
    case (Suc k')
    with Cons.prems have "k' < length rest" by simp
    moreover have "\<forall>i \<le> k'. accepts (mark_failed (clk (Suc n + i)) (rest ! i))"
    proof (intro allI impI)
      fix i assume "i \<le> k'"
      with Suc have "Suc i \<le> k" by simp
      with Cons.prems(2) have "accepts (mark_failed (clk (n + Suc i)) ((j # rest) ! Suc i))"
        by blast
      then show "accepts (mark_failed (clk (Suc n + i)) (rest ! i))" by simp
    qed
    ultimately have "job_id (rest ! k') \<in> cleared_ids clk accepts (Suc n) rest"
      by (rule Cons.IH)
    with a Suc show ?thesis by simp
  qed
qed

text \<open>What \<open>manual_clear_stuck\<close> returns and leaves in the table is what its loop does.\<close>

lemma manual_clear_stuck_loop:
  "returned (manual_clear_stuck db ch dry_run_arg now clk accepts ord)
     = fst (clear_loop (dry_run_arg \<noteq> Some False) clk accepts 0 db
              ([banner ''MANUAL CLEAR STUCK'' ch, Text [L ''DRY RUN: '', B (dry_run_arg \<noteq> Some False)]]
                 @ snd (debug_clear_stuck_logic db ch now)
                 @ [Text [L ''Total jobs to clear: '', N (length (all_stuck db ch now))]])
              (ord (all_stuck db ch now)))"
  "store (manual_clear_stuck db ch dry_run_arg now clk accepts ord)
     = fst (snd (clear_loop (dry_run_arg \<noteq> Some False) clk accepts 0 db
              ([banner ''MANUAL CLEAR STUCK'' ch, Text [L ''DRY RUN: '', B (dry_run_arg \<noteq> Some False)]]
                 @ snd (debug_clear_stuck_logic db ch now)
                 @ [Text [L ''Total jobs to clear: '', N (length (all_stuck db ch now))]])
              (ord (all_stuck db ch now))))"
proof -
  have d: "(case dry_run_arg of None \<Rightarrow> True | Some b \<Rightarrow> b) = (dry_run_arg \<noteq> Some False)"
    by (cases dry_run_arg) auto
  show "returned (manual_clear_stuck db ch dry_run_arg now clk accepts ord)
     = fst (clear_loop (dry_run_arg \<noteq> Some False) clk accepts 0 db
              ([banner ''MANUAL CLEAR STUCK'' ch, Text [L ''DRY RUN: '', B (dry_run_arg \<noteq> Some False)]]
                 @ snd (debug_clear_stuck_logic db ch now)
                 @ [Text [L ''Total jobs to clear: '', N (length (all_stuck db ch now))]])
              (ord (all_stuck db ch now)))"
    unfolding manual_clear_stuck_def Let_def d
    by (simp split: prod.splits sum.splits)
  show "store (manual_clear_stuck db ch dry_run_arg now clk accepts ord)
     = fst (snd (clear_loop (dry_run_arg \<noteq> Some False) clk accepts 0 db
              ([banner ''MANUAL CLEAR STUCK'' ch, Text [L ''DRY RUN: '', B (dry_run_arg \<noteq> Some False)]]
                 @ snd (debug_clear_stuck_logic db ch now)
                 @ [Text [L ''Total jobs to clear: '', N (length (all_stuck db ch now))]])
              (ord (all_stuck db ch now))))"
    unfolding manual_clear_stuck_def Let_def d
    by (simp split: prod.splits sum.splits)
qed

subsection \<open>The summary\<close>

lemma values_count_keys:
  "sorted (map fst (values_count f rows)) \<and> distinct (map fst (values_count f rows))
   \<and> set (map fst (values_count f rows)) = f ` set rows"
  by (simp add: values_count_def comp_def)

lemma values_count_count:
  "(k, c) \<in> set (values_count f rows) \<Longrightarrow> c = length (filter (\<lambda>r. f r = k) rows)"
  by (auto simp: values_count_def)

lemma recent_length:
  assumes "mset (tie (jobs_query db ch)) = mset (jobs_query db ch)"
  shows "length (recent_jobs tie db ch) = min 5 (length (jobs_query db ch))"
proof -
  from assms have "length (tie (jobs_query db ch)) = length (jobs_query db ch)"
    by (rule mset_eq_length)
  then show ?thesis by (simp add: recent_jobs_def min.commute)
qed

lemma recent_descending: "sorted_wrt (\<lambda>a b. created b \<le> created a) (recent_jobs tie db ch)"
proof -
  have "sorted (map (\<lambda>j. - created j) (sort_key (\<lambda>j. - created j) (tie (jobs_query db ch))))"
    by simp
  then have "sorted_wrt (\<lambda>a b. created b \<le> created a)
               (sort_key (\<lambda>j. - created j) (tie (jobs_query db ch)))"
    by (simp add: sorted_map)
  then show ?thesis unfolding recent_jobs_def by (rule sorted_wrt_take)
qed

lemma recent_rows:
  assumes "mset (tie (jobs_query db ch)) = mset (jobs_query db ch)"
  shows "mset (recent_jobs tie db ch) \<subseteq># mset (jobs_query db ch)"
proof -
  let ?s = "sort_key (\<lambda>j. - created j) (tie (jobs_query db ch))"
  have "mset (take 5 ?s) + mset (drop 5 ?s) = mset ?s"
    by (metis append_take_drop_id mset_append)
  then have "mset (take 5 ?s) \<subseteq># mset ?s" by (metis mset_subset_eq_add_left)
  with assms show ?thesis by (simp add: recent_jobs_def)
qed

lemma recent_newest:
  assumes "mset (tie (jobs_query db ch)) = mset (jobs_query db ch)"
      and "x \<in># mset (jobs_query db ch) - mset (recent_jobs tie db ch)"
      and "r \<in> set (recent_jobs tie db ch)"
  shows "created x \<le> created r"
proof -
  let ?s = "sort_key (\<lambda>j. - created j) (tie (jobs_query db ch))"
  have "mset (take 5 ?s) + mset (drop 5 ?s) = mset ?s"
    by (metis append_take_drop_id mset_append)
  moreover from assms(1) have "mset ?s = mset (jobs_query db ch)" by simp
  ultimately have "mset (jobs_query db ch) - mset (recent_jobs tie db ch) = mset (drop 5 ?s)"
    by (simp add: recent_jobs_def) (metis add_diff_cancel_left')
  with assms(2) have x: "x \<in> set (drop 5 ?s)" by simp
  have "sorted (map (\<lambda>j. - created j) ?s)" by simp
  then have "sorted_wrt (\<lambda>a b. created b \<le> created a) (take 5 ?s @ drop 5 ?s)"
    by (simp add: sorted_map)
  then have "\<forall>a \<in> set (take 5 ?s). \<forall>b \<in> set (drop 5 ?s). created b \<le> created a"
    unfolding sorted_wrt_append by blast
  with x assms(3) show ?thesis by (simp add: recent_jobs_def)
qed

subsection \<open>Lookups\<close>

lemma objects_get_missing: "i \<notin> job_id ` set db \<Longrightarrow> objects_get db i = Inl DoesNotExist"
proof -
  assume "i \<notin> job_id ` set db"
  then have "filter (\<lambda>r. job_id r = i) db = []"
    by (auto simp: filter_empty_conv)
  then show ?thesis by (simp add: objects_get_def)
qed

subsection \<open>The example table\<close>

lemma all_stuck_db0: "all_stuck db0 None now0 = [job_a, job_b, job_d]"
  by (simp add: all_stuck_def debug_clear_stuck_logic_def union_qs_def potentially_stuck_def
      expired_jobs_def jobs_query_def minutes_def db0_def job_a_def job_b_def job_c_def
      job_d_def now0_def)

lemma by_id_db0: "by_id (all_stuck db0 None now0) = [job_a, job_b, job_d]"
  by (simp add: all_stuck_db0 by_id_def job_a_def job_b_def job_d_def)

lemma pending_db0: "pending_jobs db0 None = [job_a, job_d]"
  by (simp add: pending_jobs_def jobs_query_def db0_def job_a_def job_b_def job_c_def job_d_def)

lemma pending_many: "length (pending_jobs many_pending None) = 12"
  by (simp add: pending_jobs_def jobs_query_def many_pending_def pending_row_def job_a_def
      comp_def)

section \<open>The claims\<close>

text \<open>
  C1. A row of the queried jobs (all rows, or those of the channel asked for) is a
  candidate of \<open>manual_clear_stuck\<close> if and only if its status is pending or running and
  it was created more than 10 minutes before \<open>now\<close> or its \<open>expires_at\<close> is present and
  earlier than \<open>now\<close>. The candidates are the union of the potentially stuck and the
  expired rows, and no row is listed twice.
\<close>

theorem reclaim_candidates_iff:
  "(j \<in> set (all_stuck db ch now) \<longleftrightarrow>
      j \<in> set (jobs_query db ch) \<and> status j \<in> {''pending'', ''running''} \<and>
      (created j < now - minutes 10 \<or> (\<exists>e. expires_at j = Some e \<and> e < now)))
   \<and> set (all_stuck db ch now) = set (potentially_stuck db ch now) \<union> set (expired_jobs db ch now)
   \<and> distinct (all_stuck db ch now)"
proof -
  have "j \<in> set (all_stuck db ch now) \<longleftrightarrow>
      j \<in> set (jobs_query db ch) \<and> status j \<in> {''pending'', ''running''} \<and>
      (created j < now - minutes 10 \<or> before (expires_at j) now)"
    unfolding all_stuck_set potentially_stuck_def expired_jobs_def by auto
  moreover have "distinct (all_stuck db ch now)"
    by (simp add: all_stuck_def union_qs_def)
  ultimately show ?thesis using all_stuck_set by (simp add: before_iff)
qed

theorem reclaim_candidates_iff_witness:
  "job_d \<in> set (all_stuck db0 None now0) \<and> job_c \<notin> set (all_stuck db0 None now0)
   \<and> distinct (all_stuck db0 None now0)"
proof -
  have m: "job_d \<in> set (jobs_query db0 None)"
    by (simp add: jobs_query_def db0_def)
  have s: "status job_d \<in> {''pending'', ''running''}"
    by (simp add: job_d_def)
  have e: "\<exists>e. expires_at job_d = Some e \<and> e < now0"
    by (simp add: job_d_def now0_def)
  have c: "status job_c \<notin> {''pending'', ''running''}"
    by (simp add: job_c_def)
  from reclaim_candidates_iff [of job_d db0 None now0] m s e
  have "job_d \<in> set (all_stuck db0 None now0)" and "distinct (all_stuck db0 None now0)"
    by blast+
  moreover from reclaim_candidates_iff [of job_c db0 None now0] c
  have "job_c \<notin> set (all_stuck db0 None now0)"
    by blast
  ultimately show ?thesis by simp
qed

text \<open>
  C2, as the code has it. \<open>debug_stuck_jobs\<close> classifies the first ten pending jobs in
  ascending order of \<open>created\<close> and no other row: the verdicts it prints are those of
  these jobs, in that order. A pending job whose \<open>expires_at\<close> is present and earlier
  than the reading of the clock gets the verdict \<open>Expired\<close>, whatever its age and
  whatever the later reading \<open>t2\<close>, so also when it has been pending for more than 5
  minutes; and so does each such job among those listed.
\<close>

theorem listed_expired_verdict:
  "[v. Verdict v \<leftarrow> debug_stuck_jobs db ch clock]
     = map (\<lambda>(i, j). stuck_verdict (fst (clock i)) (snd (clock i)) j)
         (List.enumerate 0 (take 10 (pending_jobs db ch)))
   \<and> (status j = ''pending'' \<and> expires_at j = Some e \<and> e < t1
      \<longrightarrow> stuck_verdict t1 t2 j = Expired)
   \<and> (k < length (pending_jobs db ch) \<and> k < 10
       \<and> expires_at (pending_jobs db ch ! k) = Some e' \<and> e' < fst (clock k)
      \<longrightarrow> [v. Verdict v \<leftarrow> debug_stuck_jobs db ch clock] ! k = Expired)"
proof -
  have "[v. Verdict v \<leftarrow> debug_stuck_jobs db ch clock] ! k = Expired"
    if "k < length (pending_jobs db ch)" "k < 10"
       "expires_at (pending_jobs db ch ! k) = Some e'" "e' < fst (clock k)"
  proof -
    from that have "k < length (take 10 (pending_jobs db ch))" by simp
    then have "[v. Verdict v \<leftarrow> show_pending clock 0 (take 10 (pending_jobs db ch))] ! k
                 = stuck_verdict (fst (clock k)) (snd (clock k)) (take 10 (pending_jobs db ch) ! k)"
      by (rule verdict_nth)
    with that show ?thesis
      by (simp add: verdicts_debug_stuck_jobs stuck_verdict_def)
  qed
  then show ?thesis
    by (simp add: verdicts_debug_stuck_jobs verdicts_show_pending stuck_verdict_def)
qed

theorem listed_expired_verdict_witness:
  "stuck_verdict now0 (now0 + minutes 10) job_d = Expired
   \<and> created job_d < now0 + minutes 10 - minutes 5 \<and> status job_d = ''pending''
   \<and> [v. Verdict v \<leftarrow> debug_stuck_jobs db0 None clock0] ! 1 = Expired"
proof -
  note th = listed_expired_verdict [of db0 None clock0 job_d 63899999970000000 now0
              "now0 + minutes 10" 1 63899999970000000]
  have j: "status job_d = ''pending''" "expires_at job_d = Some 63899999970000000"
    "created job_d < now0 + minutes 10 - minutes 5"
    by (simp_all add: job_d_def now0_def minutes_def)
  have t: "63899999970000000 < now0" "63899999970000000 < fst (clock0 1)"
    by (simp_all add: now0_def clock0_def)
  have p: "1 < length (pending_jobs db0 None)" "(1::nat) < 10"
    "expires_at (pending_jobs db0 None ! 1) = Some 63899999970000000"
    by (simp_all add: pending_db0 job_d_def)
  from th [THEN conjunct2, THEN conjunct1] j t
  have "stuck_verdict now0 (now0 + minutes 10) job_d = Expired" by blast
  moreover from th [THEN conjunct2, THEN conjunct2] p t
  have "[v. Verdict v \<leftarrow> debug_stuck_jobs db0 None clock0] ! 1 = Expired" by blast
  ultimately show ?thesis using j by blast
qed

text \<open>
  C2 as the claim states it fails. \<open>job_r\<close> is running and its expiry has passed: in a
  table of this one row \<open>debug_stuck_jobs\<close> prints the banner and a total of 0, and no
  verdict. And of the eleven pending jobs of \<open>many_expired\<close>, whose expiry has passed,
  ten get the verdict.
\<close>

theorem expired_rows_without_verdict:
  "status job_r = ''running'' \<and> expires_at job_r = Some 63899999970000000
   \<and> 63899999970000000 < fst (clock0 0)
   \<and> debug_stuck_jobs [job_r] None clock0
       = [Banner ''DEBUGGING STUCK JOBS'' None, Text [L ''Total pending jobs: '', N 0]]
   \<and> length (pending_jobs many_expired None) = 11
   \<and> count_list (debug_stuck_jobs many_expired None clock0) (Verdict Expired) = 10"
  by (simp add: debug_stuck_jobs_def pending_jobs_def jobs_query_def banner_def
      stuck_verdict_def many_expired_def expired_row_def upt_rec
      job_r_def job_b_def job_d_def now0_def clock0_def)

text \<open>
  C3, as the code has it. A dry run leaves the table as it was. \<open>manual_clear_stuck\<close>
  returns a count exactly when the run is a dry run or the store has taken the write of
  every candidate, and the count is then the number of candidates: all were attempted
  and no write failed. A run in which a write fails returns no count: it raises.
\<close>

theorem dry_run_frame_and_count:
  assumes "mset (ord (all_stuck db ch now)) = mset (all_stuck db ch now)"
  shows "store (manual_clear_stuck db ch (Some True) now clk accepts ord) = db
   \<and> (returned (manual_clear_stuck db ch dry_run_arg now clk accepts ord) = Inr n \<longleftrightarrow>
        n = length (all_stuck db ch now) \<and>
        (dry_run_arg \<noteq> Some False \<or>
         (\<forall>k < length (all_stuck db ch now).
            accepts (mark_failed (clk k) (ord (all_stuck db ch now) ! k)))))
   \<and> (dry_run_arg = Some False
       \<and> (\<exists>k < length (all_stuck db ch now).
             \<not> accepts (mark_failed (clk k) (ord (all_stuck db ch now) ! k)))
      \<longrightarrow> (\<exists>e. returned (manual_clear_stuck db ch dry_run_arg now clk accepts ord) = Inl e))"
proof -
  from assms have l: "length (ord (all_stuck db ch now)) = length (all_stuck db ch now)"
    by (rule mset_eq_length)
  have a: "store (manual_clear_stuck db ch (Some True) now clk accepts ord) = db"
    by (simp add: manual_clear_stuck_loop clear_loop_dry)
  have b: "returned (manual_clear_stuck db ch dry_run_arg now clk accepts ord) = Inr n \<longleftrightarrow>
        n = length (all_stuck db ch now) \<and>
        (dry_run_arg \<noteq> Some False \<or>
         (\<forall>k < length (all_stuck db ch now).
            accepts (mark_failed (clk k) (ord (all_stuck db ch now) ! k))))" for n
    by (simp add: manual_clear_stuck_loop clear_loop_returns l)
  have c: "\<exists>e. returned (manual_clear_stuck db ch dry_run_arg now clk accepts ord) = Inl e"
    if "dry_run_arg = Some False"
       "\<exists>k < length (all_stuck db ch now).
           \<not> accepts (mark_failed (clk k) (ord (all_stuck db ch now) ! k))"
  proof (cases "returned (manual_clear_stuck db ch dry_run_arg now clk accepts ord)")
    case (Inl e)
    then show ?thesis by blast
  next
    case (Inr m)
    with b [of m] that show ?thesis by blast
  qed
  from a b c show ?thesis by blast
qed

theorem dry_run_frame_and_count_witness:
  "store (manual_clear_stuck db0 None (Some True) now0 clk0 refuse_b by_id) = db0
   \<and> returned (manual_clear_stuck db0 None (Some True) now0 clk0 refuse_b by_id) = Inr 3
   \<and> returned (manual_clear_stuck db0 None (Some False) now0 clk0 accept_all by_id) = Inr 3"
proof -
  have p: "mset (by_id (all_stuck db0 None now0)) = mset (all_stuck db0 None now0)"
    by (simp add: by_id_def)
  note a = dry_run_frame_and_count [where ord = by_id and db = db0 and ch = None
             and now = now0 and clk = clk0 and accepts = refuse_b
             and dry_run_arg = "Some True" and n = 3]
  note b = dry_run_frame_and_count [where ord = by_id and db = db0 and ch = None
             and now = now0 and clk = clk0 and accepts = accept_all
             and dry_run_arg = "Some False" and n = 3]
  from a [OF p] b [OF p] show ?thesis by (simp add: all_stuck_db0 accept_all_def)
qed

text \<open>
  C3 as the claim states it fails. Of the two candidates \<open>job_a\<close> and \<open>job_b\<close> the store
  takes the write of the first and refuses that of the second: the call returns no
  count, where the claim has the count 1.
\<close>

theorem failed_write_returns_no_count:
  "returned (manual_clear_stuck [job_a, job_b] None (Some False) now0 clk0 refuse_b by_id)
     = Inl (SaveError ''b0b0b0b0b0'')
   \<and> store (manual_clear_stuck [job_a, job_b] None (Some False) now0 clk0 refuse_b by_id)
       = [mark_failed (clk0 0) job_a, job_b]"
  by (simp add: manual_clear_stuck_def all_stuck_def debug_clear_stuck_logic_def union_qs_def
      potentially_stuck_def expired_jobs_def jobs_query_def minutes_def save_def write_row_def
      mark_failed_def by_id_def job_a_def job_b_def now0_def clk0_def refuse_b_def)

text \<open>
  C4, as the code has it. In whatever order the database yields the candidates: when
  the store refuses the write of one of them, the error leaves \<open>manual_clear_stuck\<close>. No
  count is returned, the table holds the writes of the candidates met before that one
  and no other, and every row whose id is not the id of one of those earlier candidates
  is in the table as it was.
\<close>

theorem save_failure_propagates:
  assumes "k < length (ord (all_stuck db ch now))"
      and "\<forall>i < k. accepts (mark_failed (clk i) (ord (all_stuck db ch now) ! i))"
      and "\<not> accepts (mark_failed (clk k) (ord (all_stuck db ch now) ! k))"
  shows "returned (manual_clear_stuck db ch (Some False) now clk accepts ord)
           = Inl (SaveError (job_id (ord (all_stuck db ch now) ! k)))
       \<and> store (manual_clear_stuck db ch (Some False) now clk accepts ord)
           = fold (\<lambda>(i, j). write_row (mark_failed (clk i) j))
               (List.enumerate 0 (take k (ord (all_stuck db ch now)))) db
       \<and> (\<forall>r \<in> set db. job_id r \<notin> job_id ` set (take k (ord (all_stuck db ch now))) \<longrightarrow>
             r \<in> set (store (manual_clear_stuck db ch (Some False) now clk accepts ord)))"
proof -
  from assms
  have a: "\<forall>i < k. accepts (mark_failed (clk (0 + i)) (ord (all_stuck db ch now) ! i))"
    and b: "\<not> accepts (mark_failed (clk (0 + k)) (ord (all_stuck db ch now) ! k))" by simp_all
  note l = clear_loop_fails [OF assms(1) a b]
  show ?thesis
    by (simp add: manual_clear_stuck_loop l fold_write_keeps)
qed

text \<open>
  The witness is a table that holds \<open>job_b\<close> before \<open>job_a\<close>, read by a database that
  yields the rows by their id: \<open>job_a\<close> is written, then the write of \<open>job_b\<close> is refused.
\<close>

theorem save_failure_propagates_witness:
  "returned (manual_clear_stuck [job_b, job_a] None (Some False) now0 clk0 refuse_b by_id)
     = Inl (SaveError (job_id job_b))
   \<and> store (manual_clear_stuck [job_b, job_a] None (Some False) now0 clk0 refuse_b by_id)
       = [job_b, mark_failed (clk0 0) job_a]"
proof -
  have c: "by_id (all_stuck [job_b, job_a] None now0) = [job_a, job_b]"
    by (simp add: all_stuck_def debug_clear_stuck_logic_def union_qs_def potentially_stuck_def
        expired_jobs_def jobs_query_def minutes_def by_id_def job_a_def job_b_def now0_def)
  have k: "1 < length (by_id (all_stuck [job_b, job_a] None now0))"
    by (simp add: c)
  have a: "\<forall>i < 1. refuse_b (mark_failed (clk0 i) (by_id (all_stuck [job_b, job_a] None now0) ! i))"
    unfolding c by (simp add: refuse_b_def mark_failed_def job_a_def)
  have b: "\<not> refuse_b (mark_failed (clk0 1) (by_id (all_stuck [job_b, job_a] None now0) ! 1))"
    unfolding c by (simp add: refuse_b_def mark_failed_def job_b_def)
  have w: "write_row (mark_failed (clk0 0) job_a) [job_b, job_a] = [job_b, mark_failed (clk0 0) job_a]"
    by (simp add: write_row_def mark_failed_def job_a_def job_b_def)
  from save_failure_propagates [where ord = by_id and db = "[job_b, job_a]" and ch = None
         and now = now0 and k = 1 and accepts = refuse_b and clk = clk0, OF k a b]
  show ?thesis
    unfolding c by (simp add: w)
qed

text \<open>
  C4 as the claim states it fails. The database yields the candidates of the example
  table by their id, and the store refuses the write of \<open>job_b\<close>, the second of the
  three: the call ends with that error, and \<open>job_d\<close>, the candidate after it, is still
  in the table as a pending job.
\<close>

theorem save_failure_aborts_batch:
  "returned (manual_clear_stuck db0 None (Some False) now0 clk0 refuse_b by_id)
     = Inl (SaveError ''b0b0b0b0b0'')
   \<and> job_d \<in> set (store (manual_clear_stuck db0 None (Some False) now0 clk0 refuse_b by_id))
   \<and> status job_d = ''pending''"
  by (simp add: manual_clear_stuck_def all_stuck_def debug_clear_stuck_logic_def union_qs_def
      potentially_stuck_def expired_jobs_def jobs_query_def minutes_def save_def write_row_def
      mark_failed_def by_id_def db0_def job_a_def job_b_def job_c_def job_d_def now0_def
      clk0_def refuse_b_def)

text \<open>
  C5. In whatever order the database yields the candidates: a candidate that a run of
  \<open>manual_clear_stuck\<close> without dry run has written, the store having taken the writes
  of the candidates met before it and its own, is no candidate in the table the run
  leaves, for any channel and at any later time: its rows have the status failed.
\<close>

theorem reclaim_excludes_cleared:
  assumes "k < length (ord (all_stuck db ch now))"
      and "\<forall>i \<le> k. accepts (mark_failed (clk i) (ord (all_stuck db ch now) ! i))"
  shows "job_id (ord (all_stuck db ch now) ! k)
           \<notin> job_id ` set (all_stuck
                 (store (manual_clear_stuck db ch (Some False) now clk accepts ord)) ch' now')"
proof
  let ?db' = "store (manual_clear_stuck db ch (Some False) now clk accepts ord)"
  let ?cs = "ord (all_stuck db ch now)"
  assume "job_id (?cs ! k) \<in> job_id ` set (all_stuck ?db' ch' now')"
  then obtain r where r: "r \<in> set (all_stuck ?db' ch' now')"
    and i: "job_id r = job_id (?cs ! k)" by auto
  from r have m: "r \<in> set ?db'" and s: "status r \<in> {''pending'', ''running''}"
    using all_stuck_rows by blast+
  from assms have "job_id (?cs ! k) \<in> cleared_ids clk accepts 0 ?cs"
    by (intro cleared_ids_nth) simp_all
  with i have c: "job_id r \<in> {} \<union> cleared_ids clk accepts 0 ?cs" by simp
  have "\<forall>r \<in> set db. job_id r \<in> {} \<longrightarrow> status r = ''failed''" by simp
  note f = clear_loop_failed_rows [OF this, of clk accepts 0 _ ?cs]
  from m have "status r = ''failed''"
    unfolding manual_clear_stuck_loop using f c by simp
  with s show False by simp
qed

theorem reclaim_excludes_cleared_witness:
  "job_id job_d \<notin> job_id ` set (all_stuck
      (store (manual_clear_stuck db0 None (Some False) now0 clk0 accept_all by_id))
      None (now0 + minutes 30))"
proof -
  have k: "2 < length (by_id (all_stuck db0 None now0))"
    by (simp add: by_id_db0)
  have a: "\<forall>i \<le> 2. accept_all (mark_failed (clk0 i) (by_id (all_stuck db0 None now0) ! i))"
    by (simp add: accept_all_def)
  from reclaim_excludes_cleared [where ord = by_id and db = db0 and ch = None and now = now0
         and k = 2 and accepts = accept_all and clk = clk0 and ch' = None
         and now' = "now0 + minutes 30", OF k a]
  show ?thesis
    by (simp add: by_id_db0)
qed

text \<open>
  C6, as the code has it. For an id that no row has, \<open>inspect_job\<close> raises nothing: it
  prints that the job was not found and returns \<open>None\<close>.
\<close>

theorem inspect_job_not_found:
  "i \<notin> job_id ` set db \<Longrightarrow>
     inspect_job db i now = (Inr None, [Text [L ''Job '', S i, L '' not found'']])"
  by (simp add: inspect_job_def objects_get_missing)

theorem inspect_job_not_found_witness:
  "''zz'' \<notin> job_id ` set ties_db
   \<and> inspect_job ties_db ''zz'' now0 = (Inr None, [Text [L ''Job '', S ''zz'', L '' not found'']])"
proof -
  have h: "''zz'' \<notin> job_id ` set ties_db"
    by (simp add: ties_db_def tie_a_def tie_b_def tie_c_def)
  from inspect_job_not_found [OF h, of now0] h show ?thesis by simp
qed

text \<open>
  C6 as the claim states it fails: no row of the example table has the id \<open>deadbeef\<close>,
  and the call returns \<open>None\<close>, not an error.
\<close>

theorem inspect_missing_returns_none:
  "fst (inspect_job db0 ''deadbeef'' now0) = Inr None"
  by (simp add: inspect_job_def objects_get_def db0_def job_a_def job_b_def job_c_def job_d_def)

text \<open>
  C7, as the code has it. The status counts have one key for each status among the
  queried jobs, in ascending order, each with the number of jobs of that status. In
  whatever order the database resolves equal keys, the recent jobs are 5 of the queried
  jobs, or all when there are fewer, in descending order of \<open>created\<close>, and no job left
  out was created after one of them.
\<close>

theorem summary_counts_and_recent:
  assumes "mset (tie (jobs_query db ch)) = mset (jobs_query db ch)"
  shows "sorted (map fst (status_counts db ch)) \<and> distinct (map fst (status_counts db ch))
   \<and> set (map fst (status_counts db ch)) = status ` set (jobs_query db ch)
   \<and> (\<forall>(k, c) \<in> set (status_counts db ch).
         c = length (filter (\<lambda>r. status r = k) (jobs_query db ch)))
   \<and> length (recent_jobs tie db ch) = min 5 (length (jobs_query db ch))
   \<and> mset (recent_jobs tie db ch) \<subseteq># mset (jobs_query db ch)
   \<and> sorted_wrt (\<lambda>a b. created b \<le> created a) (recent_jobs tie db ch)
   \<and> (\<forall>x \<in># mset (jobs_query db ch) - mset (recent_jobs tie db ch).
         \<forall>r \<in> set (recent_jobs tie db ch). created x \<le> created r)"
proof -
  have "\<forall>(k, c) \<in> set (status_counts db ch).
          c = length (filter (\<lambda>r. status r = k) (jobs_query db ch))"
    unfolding status_counts_def using values_count_count by fastforce
  moreover have "\<forall>x \<in># mset (jobs_query db ch) - mset (recent_jobs tie db ch).
                   \<forall>r \<in> set (recent_jobs tie db ch). created x \<le> created r"
    using recent_newest [where tie = tie, OF assms] by blast
  ultimately show ?thesis
    using values_count_keys [of status "jobs_query db ch"]
    by (simp add: status_counts_def recent_length [where tie = tie, OF assms]
        recent_rows [where tie = tie, OF assms] recent_descending)
qed

theorem summary_counts_and_recent_witness:
  "sorted (map fst (status_counts many_pending None))
   \<and> length (recent_jobs rev many_pending None) = 5
   \<and> sorted_wrt (\<lambda>a b. created b \<le> created a) (recent_jobs rev many_pending None)"
proof -
  have p: "mset (rev (jobs_query many_pending None)) = mset (jobs_query many_pending None)"
    by simp
  from summary_counts_and_recent [where tie = rev and db = many_pending and ch = None, OF p]
  show ?thesis
    by (simp add: jobs_query_def many_pending_def)
qed

text \<open>
  C7 as the claim states it fails. The three rows of \<open>ties_db\<close> were created at the same
  instant and are in the table in the order b, a, c of their ids. With a database that
  meets the rows last row first, the recent jobs come in the order c, a, b: not the
  order of the ids in either direction.
\<close>

theorem recent_ties_not_by_id:
  "map job_id (recent_jobs rev ties_db None) = [''c'', ''a'', ''b'']
   \<and> map created (recent_jobs rev ties_db None)
       = [63899999000000000, 63899999000000000, 63899999000000000]"
  by (simp add: recent_jobs_def jobs_query_def ties_db_def tie_a_def tie_b_def tie_c_def job_a_def)

text \<open>
  C8, as the code has it. \<open>find_old_pending_jobs\<close> checks neither argument. Whenever the
  cutoff is a date, it returns the pending jobs of the channel created before the
  cutoff, in ascending order of \<open>created\<close>: with negative minutes the cutoff lies after
  \<open>now\<close>, and with a channel that no row has the result is empty.
\<close>

theorem find_old_never_rejects:
  assumes "timedelta_minutes m = Inr d" and "datetime_sub now d = Inr cutoff"
  shows "\<exists>jobs. fst (find_old_pending_jobs db (Some m) ch now clk) = Inr jobs
           \<and> mset jobs = mset (filter (\<lambda>j. status j = ''pending'' \<and> created j < now - minutes m)
                                  (jobs_query db ch))
           \<and> sorted (map created jobs)
           \<and> (m < 0 \<longrightarrow> now < cutoff \<and> cutoff = now - minutes m)
           \<and> (truthy ch \<and> ch \<notin> (\<lambda>j. Some (channel j)) ` set db \<longrightarrow> jobs = [])"
proof -
  from assms have c: "cutoff = now - minutes m"
    by (auto simp: timedelta_minutes_def datetime_sub_def split: if_splits)
  have n: "m < 0 \<longrightarrow> now < cutoff" using c by (simp add: minutes_def)
  let ?P = "\<lambda>j. status j = ''pending'' \<and> created j < now - minutes m"
  let ?jobs = "sort_key created
                 (if truthy ch then filter (\<lambda>j. Some (channel j) = ch) (filter ?P db)
                  else filter ?P db)"
  have r: "fst (find_old_pending_jobs db (Some m) ch now clk) = Inr ?jobs"
    using assms by (simp add: find_old_pending_jobs_def Let_def c)
  have sw: "filter (\<lambda>j. Some (channel j) = ch) (filter ?P db)
              = filter ?P (filter (\<lambda>j. Some (channel j) = ch) db)"
    by (simp add: conj_commute)
  have m: "mset ?jobs = mset (filter ?P (jobs_query db ch))"
    by (simp add: jobs_query_def sw del: filter_filter)
  have e: "?jobs = []" if "truthy ch" "ch \<notin> (\<lambda>j. Some (channel j)) ` set db"
  proof -
    from that(2) have "filter (\<lambda>j. Some (channel j) = ch) (filter ?P db) = []"
      by (auto simp: filter_empty_conv)
    with that(1) show ?thesis by simp
  qed
  from r m n c e show ?thesis by (intro exI [of _ ?jobs]) simp
qed

theorem find_old_never_rejects_witness:
  "fst (find_old_pending_jobs db0 (Some (- 5)) (Some ''sms'') now0 clk0) = Inr [job_d]"
proof -
  have t: "timedelta_minutes (- 5) = Inr (- 300000000)"
    by (simp add: timedelta_minutes_def minutes_def)
  have s: "datetime_sub now0 (- 300000000) = Inr 63900000300000000"
    by (simp add: datetime_sub_def now0_def)
  have f: "filter (\<lambda>j. status j = ''pending'' \<and> created j < now0 - minutes (- 5))
             (jobs_query db0 (Some ''sms'')) = [job_d]"
    by (simp add: jobs_query_def minutes_def db0_def job_a_def job_b_def job_c_def job_d_def
        now0_def)
  from find_old_never_rejects [OF t s, of db0 "Some ''sms''" clk0]
  obtain jobs where r: "fst (find_old_pending_jobs db0 (Some (- 5)) (Some ''sms'') now0 clk0) = Inr jobs"
    and m: "mset jobs = mset (filter (\<lambda>j. status j = ''pending'' \<and> created j < now0 - minutes (- 5))
                               (jobs_query db0 (Some ''sms'')))"
    by blast
  from m f have "jobs = [job_d]" by simp
  with r show ?thesis by simp
qed

text \<open>
  C8 as the claim states it fails. With minus 5 minutes the call returns the two pending
  jobs of the example table, and with a channel that no row has it returns the empty
  list: neither call raises.
\<close>

theorem negative_minutes_accepted:
  "fst (find_old_pending_jobs db0 (Some (- 5)) None now0 clk0) = Inr [job_a, job_d]
   \<and> fst (find_old_pending_jobs db0 (Some 10) (Some ''nosuch'') now0 clk0) = Inr []"
  by (simp add: find_old_pending_jobs_def timedelta_minutes_def datetime_sub_def minutes_def
      db0_def job_a_def job_b_def job_c_def job_d_def now0_def)

text \<open>
  C9. \<open>dry_run\<close> is true when the caller leaves it out. A call that does not pass
  \<open>False\<close> leaves the table as it was, in whatever order the database yields the
  candidates: no row is written, so every row keeps its status, its \<open>finished_at\<close> and
  its \<open>last_error\<close>.
\<close>

theorem default_dry_run_frame:
  assumes "dry_run_arg \<noteq> Some False"
  shows "store (manual_clear_stuck db ch dry_run_arg now clk accepts ord) = db
       \<and> map status (store (manual_clear_stuck db ch dry_run_arg now clk accepts ord))
           = map status db
       \<and> map finished_at (store (manual_clear_stuck db ch dry_run_arg now clk accepts ord))
           = map finished_at db
       \<and> map last_error (store (manual_clear_stuck db ch dry_run_arg now clk accepts ord))
           = map last_error db"
  using assms by (simp add: manual_clear_stuck_loop clear_loop_dry)

theorem default_dry_run_frame_witness:
  "store (manual_clear_stuck db0 None None now0 clk0 accept_all by_id) = db0
   \<and> map status (store (manual_clear_stuck db0 None None now0 clk0 accept_all by_id))
       = [''pending'', ''running'', ''finished'', ''pending'']"
proof -
  have h: "(None :: bool option) \<noteq> Some False" by simp
  from default_dry_run_frame [OF h, of db0 None now0 clk0 accept_all by_id] show ?thesis
    by (simp add: db0_def job_a_def job_b_def job_c_def job_d_def)
qed

text \<open>
  C10. \<open>debug_stuck_jobs\<close> prints the number of all pending jobs of the query, and the
  detail and the verdict of the first 10 of them in ascending order of \<open>created\<close>, of all
  when there are fewer; a pending job after the tenth gets no line.
\<close>

theorem listing_first_ten:
  "Text [L ''Total pending jobs: '', N (length (pending_jobs db ch))]
     \<in> set (debug_stuck_jobs db ch clock)
   \<and> [s. JobHead s \<leftarrow> debug_stuck_jobs db ch clock]
       = map (\<lambda>j. take 8 (job_id j)) (take 10 (pending_jobs db ch))
   \<and> length [v. Verdict v \<leftarrow> debug_stuck_jobs db ch clock] = min 10 (length (pending_jobs db ch))
   \<and> sorted (map created (pending_jobs db ch))
   \<and> set (pending_jobs db ch) = {j \<in> set (jobs_query db ch). status j = ''pending''}"
  by (simp add: heads_debug_stuck_jobs verdicts_debug_stuck_jobs verdicts_show_pending
      sorted_pending set_pending min.commute)
     (simp add: debug_stuck_jobs_def)

theorem listing_first_ten_witness:
  "Text [L ''Total pending jobs: '', N 12] \<in> set (debug_stuck_jobs many_pending None clock0)
   \<and> length [s. JobHead s \<leftarrow> debug_stuck_jobs many_pending None clock0] = 10
   \<and> length [v. Verdict v \<leftarrow> debug_stuck_jobs many_pending None clock0] = 10"
  using listing_first_ten [of many_pending None clock0]
  by (simp add: pending_many)

end
